theory Spec2Isabelle
  imports Main "HOL-Library.AList"
begin

section \<open>Python strings\<close>

text \<open>
  A Python \<open>str\<close> is modelled as a \<open>string\<close> whose characters stand for the code
  points below 256. \<open>isspace\<close> lists the code points below 256 that \<open>str.strip()\<close>
  removes: tab, line feed, vertical tab, form feed, carriage return, the four
  separators 28..31, space, NEL (133) and the no-break space (160).
\<close>

abbreviation NL :: char where "NL \<equiv> CHR 0x0A"
abbreviation CR :: char where "CR \<equiv> CHR 0x0D"

definition isspace :: "char \<Rightarrow> bool" where
  "isspace ch = (of_char ch \<in> {9, 10, 11, 12, 13, 28, 29, 30, 31, 32, 133, 160 :: nat})"

definition strip :: "string \<Rightarrow> string" where
  "strip s = rev (dropWhile isspace (rev (dropWhile isspace s)))"

definition startswith :: "string \<Rightarrow> string \<Rightarrow> bool" where
  "startswith s p = (take (length p) s = p)"

text \<open>\<open>s.split(c)\<close> for a one-character separator: never empty, \<open>''.split(c) == ['']\<close>.\<close>

fun split_on :: "char \<Rightarrow> string \<Rightarrow> string list" where
  "split_on c [] = [[]]"
| "split_on c (x # xs) =
     (if x = c then [] # split_on c xs
      else (case split_on c xs of [] \<Rightarrow> [[x]] | y # ys \<Rightarrow> (x # y) # ys))"

section \<open>The SSE event parser\<close>

text \<open>
  \<^verbatim>\<open>parse_sse_event\<close>: the loop body, one line at a time, over the pair
  \<open>(event_type, data)\<close>; the function starts from \<open>("message", "")\<close>.
\<close>

definition parse_line :: "string \<times> string \<Rightarrow> string \<Rightarrow> string \<times> string" where
  "parse_line st line =
     (if startswith line ''event:'' then (strip (drop 6 line), snd st)
      else if startswith line ''data:'' then (fst st, strip (drop 5 line))
      else st)"

definition parse_sse_event :: "string \<Rightarrow> string \<times> string" where
  "parse_sse_event event_str = foldl parse_line (''message'', '''') (split_on NL event_str)"

text \<open>
  The parser as the specification words it: the type is the trimmed remainder of the
  last line prefixed \<open>event:\<close> (default \<open>message\<close>), the data the trimmed remainder of
  the last line prefixed \<open>data:\<close> (default empty); every other line is ignored.
\<close>

definition last_prefixed :: "string \<Rightarrow> string list \<Rightarrow> string option" where
  "last_prefixed p ls =
     (let found = filter (\<lambda>l. startswith l p) ls
      in if found = [] then None else Some (last found))"

definition parse_spec :: "string \<Rightarrow> string \<times> string" where
  "parse_spec block =
     (let ls = split_on NL block in
      (case last_prefixed ''event:'' ls of None \<Rightarrow> ''message'' | Some l \<Rightarrow> strip (drop 6 l),
       case last_prefixed ''data:'' ls of None \<Rightarrow> '''' | Some l \<Rightarrow> strip (drop 5 l)))"

section \<open>Integers as decimal text\<close>

text \<open>\<open>chr(n)\<close> for a code point below 256, bit by bit.\<close>

definition chr :: "nat \<Rightarrow> char" where
  "chr n = Char (odd n) (odd (n div 2)) (odd (n div 4)) (odd (n div 8))
                (odd (n div 16)) (odd (n div 32)) (odd (n div 64)) (odd (n div 128))"

text \<open>\<open>str(n)\<close> of a Python int, as the f-strings that build the URLs use it.\<close>

fun digits :: "nat \<Rightarrow> string" where
  "digits n =
     (if n < 10 then [chr (48 + n)] else digits (n div 10) @ [chr (48 + n mod 10)])"

declare digits.simps [simp del]

definition str_int :: "int \<Rightarrow> string" where
  "str_int i = (if i < 0 then CHR ''-'' # digits (nat (- i)) else digits (nat i))"

section \<open>JSON values and the codec\<close>

text \<open>
  The values \<open>json.loads\<close> returns: \<open>None\<close>, \<open>bool\<close>, \<open>int\<close>, \<open>float\<close> (carried as the
  text the encoder writes for it, no claim looks inside), \<open>str\<close>, \<open>list\<close> and \<open>dict\<close>.
  A \<open>dict\<close> keeps insertion order: it is an association list, read with \<open>map_of\<close>
  and written with \<open>AList.update\<close> (in place when the key exists, appended otherwise).
\<close>

datatype json =
    JNull
  | JBool bool
  | JInt int
  | JFloat string
  | JString string
  | JList "json list"
  | JDict "(string \<times> json) list"

text \<open>
  The \<open>json\<close> module is the standard library's, not this program's: the functions take
  it as a parameter. \<open>loads\<close> is \<open>json.loads\<close>, with \<open>Inl msg\<close> for a
  \<open>JSONDecodeError\<close> whose text is \<open>msg\<close>; \<open>dumps\<close> is \<open>json.dumps(obj)\<close>;
  \<open>dumps_compact\<close> is \<open>json.dumps(obj, separators=(',', ':'))\<close>.
\<close>

record codec =
  loads :: "string \<Rightarrow> string + json"
  dumps :: "json \<Rightarrow> string"
  dumps_compact :: "json \<Rightarrow> string"

section \<open>Exceptions\<close>

text \<open>
  The exceptions (subclasses of \<open>Exception\<close>) that the handlers tell apart.
  \<open>HTTPError code fp text\<close>: \<open>fp\<close> is \<open>None\<close> when \<open>e.fp\<close> is unset, otherwise what
  \<open>e.read().decode('utf-8')\<close> does: return the body or raise. \<open>URLError reason\<close> is a
  \<open>URLError\<close> that is not an \<open>HTTPError\<close>. \<open>OtherError text\<close> is any other exception,
  with its \<open>str\<close>. Interrupts and write failures of the standard streams are outside
  the model.
\<close>

datatype exn =
    HTTPError int "(exn + string) option" string
  | URLError string
  | JSONDecodeError string
  | OtherError string

fun exn_str :: "exn \<Rightarrow> string" where
  "exn_str (HTTPError code fp text) = text"
| "exn_str (URLError reason) = ''<urlopen error '' @ reason @ ''>''"
| "exn_str (JSONDecodeError msg) = msg"
| "exn_str (OtherError text) = text"

fun type_name :: "json \<Rightarrow> string" where
  "type_name JNull = ''NoneType''"
| "type_name (JBool b) = ''bool''"
| "type_name (JInt i) = ''int''"
| "type_name (JFloat f) = ''float''"
| "type_name (JString s) = ''str''"
| "type_name (JList xs) = ''list''"
| "type_name (JDict kvs) = ''dict''"

text \<open>\<open>obj.get(key)\<close>: \<open>None\<close> for a missing key, \<open>AttributeError\<close> when \<open>obj\<close> is no dict.\<close>

fun py_get :: "json \<Rightarrow> string \<Rightarrow> exn + json" where
  "py_get (JDict kvs) key = Inr (case map_of kvs key of None \<Rightarrow> JNull | Some v \<Rightarrow> v)"
| "py_get obj key =
     Inl (OtherError ([CHR 0x27] @ type_name obj @ [CHR 0x27] @ '' object has no attribute ''
                      @ [CHR 0x27] @ ''get'' @ [CHR 0x27]))"

text \<open>Truth value of a Python object, as \<open>if not sse_url\<close> tests it.\<close>

fun truthy :: "json \<Rightarrow> bool" where
  "truthy JNull = False"
| "truthy (JBool b) = b"
| "truthy (JInt i) = (i \<noteq> 0)"
| "truthy (JFloat f) = (f \<noteq> ''0.0'' \<and> f \<noteq> ''-0.0'')"
| "truthy (JString s) = (s \<noteq> [])"
| "truthy (JList xs) = (xs \<noteq> [])"
| "truthy (JDict kvs) = (kvs \<noteq> [])"

section \<open>The network and the observable effects\<close>

text \<open>
  What \<open>urlopen\<close> gives back: an exception, or a response with its status, what
  \<open>resp.read().decode('utf-8')\<close> does (the body, or an exception), and the value of the
  \<open>Mcp-Session-Id\<close> response header when there is one.
\<close>

record http_response =
  status :: int
  read_body :: "exn + string"
  mcp_session_id :: "string option"

text \<open>
  The effects visible from outside, in the order they happen: a line printed on
  stdout, a POST with its URL, headers and body, a GET with its URL. The log lines on
  stderr are left out.
\<close>

datatype event =
    Stdout string
  | HttpPost string "(string \<times> string) list" string
  | HttpGet string

section \<open>Discovery\<close>

definition health_url :: "string \<Rightarrow> int \<Rightarrow> string" where
  "health_url host port = ''http://'' @ host @ '':'' @ str_int port @ ''/mcp/health''"

text \<open>
  \<^verbatim>\<open>check_ue5_health\<close>: \<open>net\<close> is what \<open>urlopen\<close> answers for a GET of each URL. The
  body is read (for the debug line) only when the status is 200, inside the \<open>try\<close>: a
  failing read makes the probe fail.
\<close>

definition check_ue5_health :: "(string \<Rightarrow> exn + http_response) \<Rightarrow> string \<Rightarrow> int \<Rightarrow> bool" where
  "check_ue5_health net host port =
     (case net (health_url host port) of
        Inl e \<Rightarrow> False
      | Inr resp \<Rightarrow>
          (if status resp = 200
           then (case read_body resp of Inl e \<Rightarrow> False | Inr body \<Rightarrow> True)
           else False))"

text \<open>
  \<^verbatim>\<open>find_ue5_server\<close>, loop by loop. Each function returns the probes it made, in
  order, and the endpoint found.
\<close>

fun try_hosts ::
  "(string \<Rightarrow> exn + http_response) \<Rightarrow> int \<Rightarrow> string list \<Rightarrow> event list \<times> (string \<times> int) option"
where
  "try_hosts net port [] = ([], None)"
| "try_hosts net port (h # hs) =
     (if check_ue5_health net h port then ([HttpGet (health_url h port)], Some (h, port))
      else (case try_hosts net port hs of
              (evs, r) \<Rightarrow> (HttpGet (health_url h port) # evs, r)))"

fun scan_ports ::
  "(string \<Rightarrow> exn + http_response) \<Rightarrow> string \<Rightarrow> int \<Rightarrow> string \<Rightarrow> int list
     \<Rightarrow> event list \<times> (string \<times> int) option"
where
  "scan_ports net host port h [] = ([], None)"
| "scan_ports net host port h (p # ps) =
     (if p = port \<and> h = host then scan_ports net host port h ps
      else if check_ue5_health net h p then ([HttpGet (health_url h p)], Some (h, p))
      else (case scan_ports net host port h ps of
              (evs, r) \<Rightarrow> (HttpGet (health_url h p) # evs, r)))"

fun scan_hosts ::
  "(string \<Rightarrow> exn + http_response) \<Rightarrow> string \<Rightarrow> int \<Rightarrow> string list
     \<Rightarrow> event list \<times> (string \<times> int) option"
where
  "scan_hosts net host port [] = ([], None)"
| "scan_hosts net host port (h # hs) =
     (case scan_ports net host port h [27000..27010] of
        (evs, Some r) \<Rightarrow> (evs, Some r)
      | (evs, None) \<Rightarrow>
          (case scan_hosts net host port hs of (evs', r) \<Rightarrow> (evs @ evs', r)))"

definition hosts_to_try :: "string \<Rightarrow> string list" where
  "hosts_to_try host = (if host = ''localhost'' then [''127.0.0.1'', ''localhost''] else [host])"

definition find_ue5_server ::
  "(string \<Rightarrow> exn + http_response) \<Rightarrow> string \<Rightarrow> int \<Rightarrow> event list \<times> (string \<times> int) option"
where
  "find_ue5_server net host port =
     (case try_hosts net port (hosts_to_try host) of
        (evs, Some r) \<Rightarrow> (evs, Some r)
      | (evs, None) \<Rightarrow>
          (case scan_hosts net host port (hosts_to_try host) of (evs', r) \<Rightarrow> (evs @ evs', r)))"

text \<open>
  The probe order as the specification words it, to compare with the loops above: the
  configured port on each host to try, then the ports 27000 to 27010 on each host,
  the configured pair left out; and probing a list of pairs in order up to the first
  success.
\<close>

definition candidates :: "string \<Rightarrow> int \<Rightarrow> (string \<times> int) list" where
  "candidates host port =
     map (\<lambda>h. (h, port)) (hosts_to_try host) @
     concat (map (\<lambda>h. map (Pair h) (filter (\<lambda>p. \<not> (p = port \<and> h = host)) [27000..27010]))
                 (hosts_to_try host))"

fun probe_in_order ::
  "(string \<Rightarrow> exn + http_response) \<Rightarrow> (string \<times> int) list \<Rightarrow> event list \<times> (string \<times> int) option"
where
  "probe_in_order net [] = ([], None)"
| "probe_in_order net ((h, p) # rest) =
     (if check_ue5_health net h p then ([HttpGet (health_url h p)], Some (h, p))
      else (case probe_in_order net rest of (evs, r) \<Rightarrow> (HttpGet (health_url h p) # evs, r)))"

section \<open>The SSE stream consumer\<close>

text \<open>
  \<open>buffer.split('\n\n', 1)\<close> when \<open>'\n\n' in buffer\<close>: the text before the first blank
  line and the text after it; \<open>None\<close> when the buffer holds no blank line.
\<close>

fun split_blank :: "string \<Rightarrow> (string \<times> string) option" where
  "split_blank (a # b # cs) =
     (if a = NL \<and> b = NL then Some ([], cs)
      else (case split_blank (b # cs) of
              None \<Rightarrow> None
            | Some (event_str, rest) \<Rightarrow> Some (a # event_str, rest)))"
| "split_blank cs = None"

text \<open>Truth value of an \<open>Optional[str]\<close>: \<open>None\<close> and the empty string are false.\<close>

fun nonempty :: "string option \<Rightarrow> bool" where
  "nonempty None = False"
| "nonempty (Some s) = (s \<noteq> [])"

text \<open>
  The inner \<open>while '\n\n' in buffer\<close> loop of \<^verbatim>\<open>handle_sse_response\<close>. It returns the
  lines printed, the buffer left and \<open>final_response\<close>. A \<open>response\<close>/\<open>result\<close> event
  assigns its data and leaves the loop by \<open>break\<close>.
\<close>

function process_events :: "string \<Rightarrow> string option \<Rightarrow> event list \<times> string \<times> string option" where
  "process_events buffer final_response =
     (case split_blank buffer of
        None \<Rightarrow> ([], buffer, final_response)
      | Some (event_str, rest) \<Rightarrow>
          (case parse_sse_event event_str of
             (event_type, event_data) \<Rightarrow>
               if event_type = ''progress'' \<or> event_type = ''notification''
               then (case process_events rest final_response of
                       (evs, buffer', final') \<Rightarrow>
                         ((if event_data \<noteq> [] then [Stdout event_data] else []) @ evs,
                          buffer', final'))
               else if event_type = ''response'' \<or> event_type = ''result''
               then ([], rest, Some event_data)
               else process_events rest final_response))"
  by pat_completeness auto
termination
proof -
  have shorter: "length r < length b" if "split_blank b = Some (e, r)" for b e r
    using that
    by (induction b arbitrary: e rule: split_blank.induct)
       (auto split: if_splits option.splits)
  show ?thesis
    by (relation "measure (\<lambda>(buffer, final_response). length buffer)")
       (auto dest: shorter)
qed

declare process_events.simps [simp del]

text \<open>
  The outer \<open>for chunk in iter(lambda: resp.read(1024).decode('utf-8'), '')\<close> loop. The
  stream is the list of what each read does: a chunk, or an exception. The end of the
  list, like an empty chunk, is the end of the stream. The loop stops early only when
  \<open>final_response\<close> is true, that is, set and not empty.
\<close>

fun read_stream ::
  "(exn + string) list \<Rightarrow> string \<Rightarrow> string option \<Rightarrow> event list \<times> (exn + string option)"
where
  "read_stream [] buffer final_response = ([], Inr final_response)"
| "read_stream (Inl e # chunks) buffer final_response = ([], Inl e)"
| "read_stream (Inr chunk # chunks) buffer final_response =
     (if chunk = [] then ([], Inr final_response)
      else (case process_events (buffer @ chunk) final_response of
              (evs, buffer', final') \<Rightarrow>
                if nonempty final' then (evs, Inr final')
                else (case read_stream chunks buffer' final' of
                        (evs', r) \<Rightarrow> (evs @ evs', r))))"

text \<open>
  \<^verbatim>\<open>handle_sse_response\<close>. \<open>sse_reply\<close> is what opening the GET stream does: an
  exception, or the stream. Every exception inside the \<open>try\<close> ends in the handler,
  which returns the original body. A true \<open>sseUrl\<close> that is no string makes the
  request constructor raise.
\<close>

definition handle_sse_response ::
  "codec \<Rightarrow> string \<Rightarrow> string \<Rightarrow> string option \<Rightarrow> exn + (exn + string) list
     \<Rightarrow> event list \<times> string \<times> string option"
where
  "handle_sse_response c host response_body session_id sse_reply =
     (case loads c response_body of
        Inl msg \<Rightarrow> ([], response_body, session_id)
      | Inr sse_info \<Rightarrow>
          (case py_get sse_info ''status'' of
             Inl e \<Rightarrow> ([], response_body, session_id)
           | Inr st \<Rightarrow>
               if st \<noteq> JString ''accepted'' then ([], response_body, session_id)
               else (case py_get sse_info ''sseUrl'' of
                       Inl e \<Rightarrow> ([], response_body, session_id)
                     | Inr sse_url \<Rightarrow>
                         if \<not> truthy sse_url then ([], response_body, session_id)
                         else (case sse_url of
                                 JString url \<Rightarrow>
                                   (case sse_reply of
                                      Inl e \<Rightarrow> ([HttpGet url], response_body, session_id)
                                    | Inr chunks \<Rightarrow>
                                        (case read_stream chunks [] None of
                                           (evs, Inl e) \<Rightarrow>
                                             (HttpGet url # evs, response_body, session_id)
                                         | (evs, Inr None) \<Rightarrow>
                                             (HttpGet url # evs, response_body, session_id)
                                         | (evs, Inr (Some final_response)) \<Rightarrow>
                                             if final_response \<noteq> []
                                             then (HttpGet url # evs, final_response, session_id)
                                             else (HttpGet url # evs, response_body, session_id)))
                               | _ \<Rightarrow> ([], response_body, session_id)))))"

section \<open>The request forwarder\<close>

definition error_obj :: "json \<Rightarrow> int \<Rightarrow> string \<Rightarrow> json" where
  "error_obj request_id code message =
     JDict [(''jsonrpc'', JString ''2.0''), (''id'', request_id),
            (''error'', JDict [(''code'', JInt code), (''message'', JString message)])]"

definition request_headers :: "string option \<Rightarrow> (string \<times> string) list" where
  "request_headers session_id =
     (case session_id of
        None \<Rightarrow> [(''Content-Type'', ''application/json'')]
      | Some sid \<Rightarrow>
          if sid \<noteq> []
          then [(''Content-Type'', ''application/json''), (''Mcp-Session-Id'', sid)]
          else [(''Content-Type'', ''application/json'')])"

text \<open>
  The three \<open>except\<close> clauses of \<^verbatim>\<open>forward_request\<close>, in their order. In the first,
  \<open>e.read().decode('utf-8')\<close> runs inside the handler: what it raises leaves the
  function.
\<close>

fun forward_except :: "codec \<Rightarrow> string option \<Rightarrow> exn \<Rightarrow> exn + string \<times> string option" where
  "forward_except c session_id (HTTPError code None text) = Inr (text, session_id)"
| "forward_except c session_id (HTTPError code (Some (Inr error_body)) text) =
     Inr (error_body, session_id)"
| "forward_except c session_id (HTTPError code (Some (Inl e)) text) = Inl e"
| "forward_except c session_id (URLError reason) =
     Inr (dumps c (error_obj JNull (- 32603) (''Connection failed: '' @ reason)), session_id)"
| "forward_except c session_id e =
     Inr (dumps c (error_obj JNull (- 32603) (exn_str e)), session_id)"

text \<open>
  \<^verbatim>\<open>forward_request\<close>. \<open>post_reply\<close> is what \<open>urlopen\<close> does for the POST, and
  \<open>sse_reply\<close> what opening the event stream does when the reply is a 202.
\<close>

definition forward_request ::
  "codec \<Rightarrow> string \<Rightarrow> int \<Rightarrow> string \<Rightarrow> string option \<Rightarrow> exn + http_response
     \<Rightarrow> exn + (exn + string) list \<Rightarrow> event list \<times> (exn + string \<times> string option)"
where
  "forward_request c host port request_data session_id post_reply sse_reply =
     (let url = ''http://'' @ host @ '':'' @ str_int port @ ''/mcp'';
          post = HttpPost url (request_headers session_id) request_data
      in case post_reply of
           Inl e \<Rightarrow> ([post], forward_except c session_id e)
         | Inr resp \<Rightarrow>
             (case read_body resp of
                Inl e \<Rightarrow> ([post], forward_except c session_id e)
              | Inr response_body \<Rightarrow>
                  (let new_session_id =
                         (case mcp_session_id resp of None \<Rightarrow> session_id | Some v \<Rightarrow> Some v)
                   in if status resp = 202
                      then (case handle_sse_response c host response_body new_session_id sse_reply of
                              (evs, r) \<Rightarrow> (post # evs, Inr r))
                      else ([post], Inr (response_body, new_session_id)))))"

section \<open>The main loop\<close>

text \<open>\<open>response.replace('\n', ' ').replace('\r', '')\<close>.\<close>

definition one_line :: "string \<Rightarrow> string" where
  "one_line s = filter (\<lambda>ch. ch \<noteq> CR) (map (\<lambda>ch. if ch = NL then CHR '' '' else ch) s)"

definition write_response :: "codec \<Rightarrow> string \<Rightarrow> event list" where
  "write_response c response =
     (case loads c response of
        Inr obj \<Rightarrow> [Stdout (dumps_compact c obj)]
      | Inl msg \<Rightarrow> [Stdout (one_line response)])"

definition write_error :: "codec \<Rightarrow> json \<Rightarrow> int \<Rightarrow> string \<Rightarrow> event list" where
  "write_error c request_id code message =
     [Stdout (dumps_compact c (error_obj request_id code message))]"

text \<open>
  Lines 282 to 288 of the loop body: the \<open>try\<close> that puts the request's id into a
  response without one; its bare \<open>except\<close> leaves the response as it is.
\<close>

definition backfill_id :: "codec \<Rightarrow> json \<Rightarrow> string \<Rightarrow> string" where
  "backfill_id c request_id response =
     (case loads c response of
        Inl msg \<Rightarrow> response
      | Inr resp_obj \<Rightarrow>
          if request_id \<noteq> JNull
          then (case py_get resp_obj ''id'' of
                  Inl e \<Rightarrow> response
                | Inr v \<Rightarrow>
                    if v = JNull
                    then (case resp_obj of
                            JDict kvs \<Rightarrow> dumps c (JDict (AList.update ''id'' request_id kvs))
                          | _ \<Rightarrow> response)
                    else response)
          else response)"

text \<open>The two \<open>except\<close> clauses of the loop body.\<close>

fun main_except :: "codec \<Rightarrow> exn \<Rightarrow> event list" where
  "main_except c (JSONDecodeError msg) = write_error c JNull (- 32700) (''Parse error: '' @ msg)"
| "main_except c e = write_error c JNull (- 32603) (exn_str e)"

text \<open>
  One line of stdin together with what the network does while it is handled.
\<close>

record stdin_line =
  text_of :: string
  post_reply :: "exn + http_response"
  sse_reply :: "exn + (exn + string) list"

text \<open>The body of \<open>for line in sys.stdin\<close>: the effects and the session id after it.\<close>

definition process_line ::
  "codec \<Rightarrow> string \<Rightarrow> int \<Rightarrow> string option \<Rightarrow> stdin_line \<Rightarrow> event list \<times> string option"
where
  "process_line c host port session_id inp =
     (let line = strip (text_of inp) in
      if line = [] then ([], session_id)
      else (case loads c line of
              Inl msg \<Rightarrow> (main_except c (JSONDecodeError msg), session_id)
            | Inr request \<Rightarrow>
                (case py_get request ''id'' of
                   Inl e \<Rightarrow> (main_except c e, session_id)
                 | Inr request_id \<Rightarrow>
                     (case forward_request c host port line session_id
                             (post_reply inp) (sse_reply inp) of
                        (evs, Inl e) \<Rightarrow> (evs @ main_except c e, session_id)
                      | (evs, Inr (response, new_session_id)) \<Rightarrow>
                          if response \<noteq> []
                          then (evs @ write_response c (backfill_id c request_id response),
                                new_session_id)
                          else (evs, new_session_id)))))"

fun main_loop ::
  "codec \<Rightarrow> string \<Rightarrow> int \<Rightarrow> string option \<Rightarrow> stdin_line list \<Rightarrow> event list \<times> string option"
where
  "main_loop c host port session_id [] = ([], session_id)"
| "main_loop c host port session_id (inp # rest) =
     (case process_line c host port session_id inp of
        (evs, session_id') \<Rightarrow>
          (case main_loop c host port session_id' rest of
             (evs', session_id'') \<Rightarrow> (evs @ evs', session_id'')))"

text \<open>\<^verbatim>\<open>main\<close>: discovery, then the loop; the result is the effects and the exit code.\<close>

definition main ::
  "codec \<Rightarrow> (string \<Rightarrow> exn + http_response) \<Rightarrow> string \<Rightarrow> int \<Rightarrow> stdin_line list
     \<Rightarrow> event list \<times> int"
where
  "main c net host port inputs =
     (case find_ue5_server net host port of
        (evs, None) \<Rightarrow> (evs, 1)
      | (evs, Some (h, p)) \<Rightarrow>
          (case main_loop c h p None inputs of (evs', session_id) \<Rightarrow> (evs @ evs', 0)))"

section \<open>Session tokens on the wire\<close>



section \<open>A reference codec\<close>

text \<open>
  A codec to run the program on concrete inputs: the encoder writes what
  \<open>json.dumps\<close> writes (with \<open>ensure_ascii\<close>), the decoder reads JSON text whose
  numbers are integers and whose \<open>\u\<close> escapes stay below 256. The text of a decoding
  error is not reproduced.
\<close>

definition hex_digit :: "nat \<Rightarrow> char" where
  "hex_digit n = (if n < 10 then chr (48 + n) else chr (87 + n))"

definition escape_char :: "char \<Rightarrow> string" where
  "escape_char ch =
     (if ch = CHR 0x22 then [CHR 0x5C, CHR 0x22]
      else if ch = CHR 0x5C then [CHR 0x5C, CHR 0x5C]
      else if ch = NL then [CHR 0x5C, CHR ''n'']
      else if ch = CR then [CHR 0x5C, CHR ''r'']
      else if ch = CHR 0x09 then [CHR 0x5C, CHR ''t'']
      else if ch = CHR 0x08 then [CHR 0x5C, CHR ''b'']
      else if ch = CHR 0x0C then [CHR 0x5C, CHR ''f'']
      else if (of_char ch :: nat) < 32 \<or> 126 < (of_char ch :: nat)
      then [CHR 0x5C, CHR ''u'', CHR ''0'', CHR ''0'',
            hex_digit (of_char ch div 16), hex_digit (of_char ch mod 16)]
      else [ch])"

definition quote :: "string \<Rightarrow> string" where
  "quote s = [CHR 0x22] @ concat (map escape_char s) @ [CHR 0x22]"

fun join :: "string \<Rightarrow> string list \<Rightarrow> string" where
  "join sep [] = []"
| "join sep [x] = x"
| "join sep (x # y # ys) = x @ sep @ join sep (y # ys)"

fun encode :: "string \<Rightarrow> string \<Rightarrow> json \<Rightarrow> string" where
  "encode item_sep key_sep JNull = ''null''"
| "encode item_sep key_sep (JBool b) = (if b then ''true'' else ''false'')"
| "encode item_sep key_sep (JInt i) = str_int i"
| "encode item_sep key_sep (JFloat f) = f"
| "encode item_sep key_sep (JString s) = quote s"
| "encode item_sep key_sep (JList xs) =
     ''['' @ join item_sep (map (encode item_sep key_sep) xs) @ '']''"
| "encode item_sep key_sep (JDict kvs) =
     ''{'' @ join item_sep
               (map (\<lambda>kv. quote (fst kv) @ key_sep @ encode item_sep key_sep (snd kv)) kvs)
          @ ''}''"

definition json_ws :: "char \<Rightarrow> bool" where
  "json_ws ch = (ch = CHR '' '' \<or> ch = CHR 0x09 \<or> ch = NL \<or> ch = CR)"

definition is_digit :: "char \<Rightarrow> bool" where
  "is_digit ch = (48 \<le> (of_char ch :: nat) \<and> (of_char ch :: nat) \<le> 57)"

definition hex_value :: "char \<Rightarrow> nat option" where
  "hex_value ch =
     (let n = (of_char ch :: nat)
      in if 48 \<le> n \<and> n \<le> 57 then Some (n - 48)
         else if 97 \<le> n \<and> n \<le> 102 then Some (n - 87)
         else if 65 \<le> n \<and> n \<le> 70 then Some (n - 55)
         else None)"

text \<open>The character an escape \<open>\e\<close> stands for, \<open>\u\<close> apart.\<close>

definition unescape :: "char \<Rightarrow> char option" where
  "unescape e =
     (if e = CHR 0x22 \<or> e = CHR 0x5C \<or> e = CHR ''/'' then Some e
      else if e = CHR ''n'' then Some NL
      else if e = CHR ''r'' then Some CR
      else if e = CHR ''t'' then Some (CHR 0x09)
      else if e = CHR ''b'' then Some (CHR 0x08)
      else if e = CHR ''f'' then Some (CHR 0x0C)
      else None)"

text \<open>The text of a string after its opening quote: the string and what follows it.\<close>

fun scan_string :: "string \<Rightarrow> (string \<times> string) option" where
  "scan_string [] = None"
| "scan_string (ch # cs) =
     (if ch = CHR 0x22 then Some ([], cs)
      else if ch = CHR 0x5C then
        (case cs of
           [] \<Rightarrow> None
         | e # cs' \<Rightarrow>
             if e = CHR ''u'' then
               (case cs' of
                  a # b # x # y # cs'' \<Rightarrow>
                    (case (hex_value a, hex_value b, hex_value x, hex_value y) of
                       (Some 0, Some 0, Some h, Some l) \<Rightarrow>
                         (case scan_string cs'' of
                            None \<Rightarrow> None
                          | Some (s, rest) \<Rightarrow> Some (chr (16 * h + l) # s, rest))
                     | _ \<Rightarrow> None)
                | _ \<Rightarrow> None)
             else (case unescape e of
                     None \<Rightarrow> None
                   | Some u \<Rightarrow>
                       (case scan_string cs' of
                          None \<Rightarrow> None
                        | Some (s, rest) \<Rightarrow> Some (u # s, rest))))
      else if (of_char ch :: nat) < 32 then None
      else (case scan_string cs of
              None \<Rightarrow> None
            | Some (s, rest) \<Rightarrow> Some (ch # s, rest)))"

definition digits_value :: "string \<Rightarrow> nat" where
  "digits_value ds = foldl (\<lambda>n ch. 10 * n + (of_char ch - 48)) 0 ds"

text \<open>
  An integer literal: an optional minus sign, then \<open>0\<close> or a digit sequence that does
  not start with \<open>0\<close>; a fraction or an exponent after it is refused.
\<close>

definition scan_int :: "string \<Rightarrow> (int \<times> string) option" where
  "scan_int s =
     (let neg = (s \<noteq> [] \<and> hd s = CHR ''-'');
          body = (if neg then tl s else s);
          ds = takeWhile is_digit body;
          rest = dropWhile is_digit body
      in if ds = [] \<or> (hd ds = CHR ''0'' \<and> length ds > 1) then None
         else if rest \<noteq> [] \<and> (hd rest = CHR ''.'' \<or> hd rest = CHR ''e'' \<or> hd rest = CHR ''E'')
         then None
         else Some (if neg then - int (digits_value ds) else int (digits_value ds), rest))"

text \<open>
  The recursive descent, bounded by a counter that every nested call decrements;
  \<open>json_loads\<close> starts it high enough for the whole text.
\<close>

fun parse_value :: "nat \<Rightarrow> string \<Rightarrow> (json \<times> string) option"
and parse_elements :: "nat \<Rightarrow> string \<Rightarrow> (json list \<times> string) option"
and parse_members :: "nat \<Rightarrow> string \<Rightarrow> ((string \<times> json) list \<times> string) option"
where
  "parse_value 0 s = None"
| "parse_value (Suc n) s =
     (case dropWhile json_ws s of
        [] \<Rightarrow> None
      | ch # cs \<Rightarrow>
          if startswith (ch # cs) ''null'' then Some (JNull, drop 4 (ch # cs))
          else if startswith (ch # cs) ''true'' then Some (JBool True, drop 4 (ch # cs))
          else if startswith (ch # cs) ''false'' then Some (JBool False, drop 5 (ch # cs))
          else if ch = CHR 0x22 then
            (case scan_string cs of
               None \<Rightarrow> None
             | Some (str, rest) \<Rightarrow> Some (JString str, rest))
          else if ch = CHR ''['' then
            (case dropWhile json_ws cs of
               [] \<Rightarrow> None
             | ch' # cs' \<Rightarrow>
                 if ch' = CHR '']'' then Some (JList [], cs')
                 else (case parse_elements n cs of
                         None \<Rightarrow> None
                       | Some (xs, rest) \<Rightarrow> Some (JList xs, rest)))
          else if ch = CHR ''{'' then
            (case dropWhile json_ws cs of
               [] \<Rightarrow> None
             | ch' # cs' \<Rightarrow>
                 if ch' = CHR ''}'' then Some (JDict [], cs')
                 else (case parse_members n cs of
                         None \<Rightarrow> None
                       | Some (kvs, rest) \<Rightarrow>
                           Some (JDict (foldl (\<lambda>d kv. AList.update (fst kv) (snd kv) d) [] kvs),
                                 rest)))
          else (case scan_int (ch # cs) of
                  None \<Rightarrow> None
                | Some (i, rest) \<Rightarrow> Some (JInt i, rest)))"
| "parse_elements 0 s = None"
| "parse_elements (Suc n) s =
     (case parse_value n s of
        None \<Rightarrow> None
      | Some (x, rest) \<Rightarrow>
          (case dropWhile json_ws rest of
             [] \<Rightarrow> None
           | ch # cs \<Rightarrow>
               if ch = CHR '']'' then Some ([x], cs)
               else if ch = CHR '','' then
                 (case parse_elements n cs of
                    None \<Rightarrow> None
                  | Some (xs, rest') \<Rightarrow> Some (x # xs, rest'))
               else None))"
| "parse_members 0 s = None"
| "parse_members (Suc n) s =
     (case dropWhile json_ws s of
        [] \<Rightarrow> None
      | q # cs \<Rightarrow>
          if q \<noteq> CHR 0x22 then None
          else (case scan_string cs of
                  None \<Rightarrow> None
                | Some (key, rest) \<Rightarrow>
                    (case dropWhile json_ws rest of
                       [] \<Rightarrow> None
                     | colon # cs' \<Rightarrow>
                         if colon \<noteq> CHR '':'' then None
                         else (case parse_value n cs' of
                                 None \<Rightarrow> None
                               | Some (v, rest') \<Rightarrow>
                                   (case dropWhile json_ws rest' of
                                      [] \<Rightarrow> None
                                    | ch # cs'' \<Rightarrow>
                                        if ch = CHR ''}'' then Some ([(key, v)], cs'')
                                        else if ch = CHR '','' then
                                          (case parse_members n cs'' of
                                             None \<Rightarrow> None
                                           | Some (kvs, rest'') \<Rightarrow> Some ((key, v) # kvs, rest''))
                                        else None)))))"

definition json_loads :: "string \<Rightarrow> string + json" where
  "json_loads s =
     (case parse_value (Suc (Suc (length s + length s))) s of
        None \<Rightarrow> Inl ''Expecting value''
      | Some (v, rest) \<Rightarrow> if dropWhile json_ws rest = [] then Inr v else Inl ''Extra data'')"

definition py_json :: codec where
  "py_json = \<lparr> loads = json_loads, dumps = encode '', '' '': '', dumps_compact = encode '','' '':'' \<rparr>"

section \<open>Properties of the event parser\<close>

lemma event_not_data: "startswith l ''event:'' \<Longrightarrow> \<not> startswith l ''data:''"
  by (cases l) (auto simp: startswith_def)

lemma last_prefixed_snoc:
  "last_prefixed p (ls @ [l]) = (if startswith l p then Some l else last_prefixed p ls)"
  by (simp add: last_prefixed_def)

lemma foldl_parse_line:
  "foldl parse_line (t, d) ls =
     (case last_prefixed ''event:'' ls of None \<Rightarrow> t | Some l \<Rightarrow> strip (drop 6 l),
      case last_prefixed ''data:'' ls of None \<Rightarrow> d | Some l \<Rightarrow> strip (drop 5 l))"
proof (induction ls rule: rev_induct)
  case Nil
  show ?case by (simp add: last_prefixed_def)
next
  case (snoc l ls)
  show ?case
  proof (cases "startswith l ''event:''")
    case True
    with event_not_data [OF True] snoc show ?thesis
      by (simp add: parse_line_def last_prefixed_snoc)
  next
    case False
    with snoc show ?thesis
      by (simp add: parse_line_def last_prefixed_snoc)
  qed
qed

text \<open>
  C6. The event parser is a total function of the block alone, and it computes what
  the specification says: with no recognised line the result is
  \<open>("message", "")\<close>; the last \<open>event:\<close> line gives the type and the last \<open>data:\<close>
  line gives the data, each trimmed (a later occurrence overwrites an earlier one,
  nothing is concatenated); all other lines change nothing.
\<close>

theorem parse_sse_event_spec: "parse_sse_event block = parse_spec block"
  by (simp add: parse_sse_event_def parse_spec_def foldl_parse_line Let_def)

text \<open>Two blocks: the empty one, and one with a comment line and a repeated \<open>data:\<close> line.\<close>

lemma parse_sse_event_examples:
  \<open>parse_sse_event '''' = (''message'', '''')\<close>
  \<open>parse_sse_event (''event: progress'' @ [NL] @ ''data: one'' @ [NL] @ '': comment'' @ [NL] @ ''data:  two '')
     = (''progress'', ''two'')\<close>
  by (simp_all add: parse_sse_event_def parse_line_def isspace_def strip_def startswith_def)

section \<open>Running the model on concrete inputs\<close>

text \<open>The defining equations that \<open>simp\<close> unfolds to run the model on a closed input.\<close>

lemmas string_defs = isspace_def strip_def startswith_def one_line_def

lemmas codec_defs = py_json_def json_loads_def json_ws_def is_digit_def hex_value_def
  unescape_def digits_value_def scan_int_def hex_digit_def escape_char_def quote_def
  str_int_def digits.simps chr_def

lemmas sse_defs = handle_sse_response_def process_events.simps parse_sse_event_def parse_line_def

lemmas loop_defs = process_line_def forward_request_def request_headers_def write_response_def
  write_error_def backfill_id_def error_obj_def Let_def

section \<open>Discovery: the probe order\<close>

text \<open>
  What the loops do: they probe the pairs of \<open>candidates\<close> in order and stop at the
  first that answers. The only pair left out of the scan is the configured one.
\<close>

lemma probe_in_order_append:
  "probe_in_order net (xs @ ys) =
     (case probe_in_order net xs of
        (evs, Some r) \<Rightarrow> (evs, Some r)
      | (evs, None) \<Rightarrow> (case probe_in_order net ys of (evs', r) \<Rightarrow> (evs @ evs', r)))"
  by (induction xs) (auto split: prod.splits option.splits)

lemma try_hosts_order: "try_hosts net port hs = probe_in_order net (map (\<lambda>h. (h, port)) hs)"
  by (induction hs) auto

lemma scan_ports_order:
  "scan_ports net host port h ps =
     probe_in_order net (map (Pair h) (filter (\<lambda>p. \<not> (p = port \<and> h = host)) ps))"
  by (induction ps) auto

lemma scan_hosts_order:
  "scan_hosts net host port hs =
     probe_in_order net
       (concat (map (\<lambda>h. map (Pair h) (filter (\<lambda>p. \<not> (p = port \<and> h = host)) [27000..27010])) hs))"
  by (induction hs) (auto simp: scan_ports_order probe_in_order_append split: prod.splits option.splits)

lemma find_ue5_server_order:
  "find_ue5_server net host port = probe_in_order net (candidates host port)"
  by (simp only: find_ue5_server_def candidates_def try_hosts_order scan_hosts_order
        probe_in_order_append)

text \<open>
  C2. With the configured host \<open>localhost\<close> and a configured port inside the scanned
  range, the scan skips only the pair \<open>(localhost, port)\<close>: the pair
  \<open>(127.0.0.1, port)\<close>, probed first in the first step, is probed again as the first
  probe of the scan. Here no server answers, the port is 27000, and the first three
  probes are \<open>127.0.0.1:27000\<close>, \<open>localhost:27000\<close>, \<open>127.0.0.1:27000\<close>; that URL is
  probed twice in all.
\<close>

theorem find_ue5_server_probes_twice:
  \<open>take 3 (fst (find_ue5_server (\<lambda>url. Inl (URLError ''Connection refused'')) ''localhost'' 27000)) =
     [HttpGet ''http://127.0.0.1:27000/mcp/health'',
      HttpGet ''http://localhost:27000/mcp/health'',
      HttpGet ''http://127.0.0.1:27000/mcp/health'']
   \<and> count_list (fst (find_ue5_server (\<lambda>url. Inl (URLError ''Connection refused'')) ''localhost'' 27000))
        (HttpGet ''http://127.0.0.1:27000/mcp/health'') = 2\<close>
  by (simp add: find_ue5_server_def hosts_to_try_def check_ue5_health_def health_url_def
        str_int_def digits.simps chr_def upto_rec_numeral)

section \<open>The stream consumer\<close>

text \<open>
  C10. Whatever the body, the session id and the stream, the session id that
  \<^verbatim>\<open>handle_sse_response\<close> returns is the one it was given.
\<close>

theorem handle_sse_response_session:
  "snd (snd (handle_sse_response c host response_body session_id sse)) = session_id"
  by (simp add: handle_sse_response_def split: sum.splits json.splits prod.splits option.splits)

text \<open>
  The guards and the fallback: a descriptor object whose status is not \<open>accepted\<close> or
  that has no \<open>sseUrl\<close> comes back unchanged, and so does the body when the stream
  cannot be opened.
\<close>

lemma handle_sse_response_guard:
  assumes "loads c body = Inr (JDict kvs)"
      and "map_of kvs ''status'' \<noteq> Some (JString ''accepted'') \<or> map_of kvs ''sseUrl'' = None"
  shows "handle_sse_response c host body sid sse = ([], body, sid)"
  using assms by (auto simp: handle_sse_response_def split: option.splits)

lemma handle_sse_response_stream_error:
  "\<exists>evs. handle_sse_response c host body sid (Inl e) = (evs, body, sid)"
  by (auto simp: handle_sse_response_def split: sum.splits json.splits option.splits)

text \<open>
  C3. A stream whose only chunk holds a \<open>response\<close> event without data and then a
  \<open>result\<close> event with data \<open>X\<close>: the first event leaves the inner loop, the outer loop
  goes on because the data is empty, the stream ends, and the rest of the buffer is
  never looked at. The function returns the deferral descriptor: neither the data of
  the first terminal event nor that of the second.
\<close>

theorem handle_sse_response_empty_terminal:
  \<open>handle_sse_response py_json ''127.0.0.1'' ''{"status":"accepted","sseUrl":"http://h/s"}'' None
     (Inr [Inr (''event: response'' @ [NL, NL] @ ''event: result'' @ [NL] @ ''data: X'' @ [NL, NL])])
   = ([HttpGet ''http://h/s''], ''{"status":"accepted","sseUrl":"http://h/s"}'', None)\<close>
  by (simp add: sse_defs string_defs codec_defs)

text \<open>
  The same two events in two chunks: the loop reads on past the first terminal event
  and returns the data of the second.
\<close>

lemma handle_sse_response_later_terminal:
  \<open>handle_sse_response py_json ''127.0.0.1'' ''{"status":"accepted","sseUrl":"http://h/s"}'' None
     (Inr [Inr (''event: response'' @ [NL, NL]), Inr (''event: result'' @ [NL] @ ''data: X'' @ [NL, NL])])
   = ([HttpGet ''http://h/s''], ''X'', None)\<close>
  by (simp add: sse_defs string_defs codec_defs)

section \<open>The forwarder\<close>

text \<open>
  C5. The upstream answers the POST with status 500 and a body that is not valid
  UTF-8: \<open>urlopen\<close> raises \<open>HTTPError\<close>, and inside its handler
  \<open>e.read().decode('utf-8')\<close> raises. No clause catches that: the exception leaves
  \<^verbatim>\<open>forward_request\<close>.
\<close>

theorem forward_request_raises:
  \<open>forward_request py_json ''127.0.0.1'' 27000 ''{"id":1}'' (Some ''s1'')
      (Inl (HTTPError 500 (Some (Inl (OtherError ''invalid start byte'')))
              ''HTTP Error 500: Internal Server Error''))
      (Inr [])
   = ([HttpPost ''http://127.0.0.1:27000/mcp''
         [(''Content-Type'', ''application/json''), (''Mcp-Session-Id'', ''s1'')] ''{"id":1}''],
      Inl (OtherError ''invalid start byte''))\<close>
  by (simp add: forward_request_def request_headers_def str_int_def digits.simps chr_def)

text \<open>
  On a \<open>URLError\<close> the forwarder returns the synthesized error, with a null id and the
  code -32603, and the session id it was given.
\<close>

lemma forward_request_url_error:
  "forward_request c host port request_data session_id (Inl (URLError reason)) sse =
     ([HttpPost (''http://'' @ host @ '':'' @ str_int port @ ''/mcp'')
         (request_headers session_id) request_data],
      Inr (dumps c (error_obj JNull (- 32603) (''Connection failed: '' @ reason)), session_id))"
  by (simp add: forward_request_def)

text \<open>
  The same for every exception that is no \<open>HTTPError\<close>, raised by \<open>urlopen\<close> or by
  the read of the body; and an \<open>HTTPError\<close> whose body can be read gives that body.
\<close>

lemma forward_request_transport_failure:
  assumes "e = URLError reason \<or> e = OtherError text \<or> e = JSONDecodeError text"
      and "post = Inl e \<or> (\<exists>resp. post = Inr resp \<and> read_body resp = Inl e)"
  shows "\<exists>message. forward_request c host port request_data session_id post sse =
           ([HttpPost (''http://'' @ host @ '':'' @ str_int port @ ''/mcp'')
               (request_headers session_id) request_data],
            Inr (dumps c (error_obj JNull (- 32603) message), session_id))"
  using assms by (auto simp: forward_request_def)

lemma forward_request_http_error:
  "forward_request c host port request_data session_id
       (Inl (HTTPError code (Some (Inr error_body)) text)) sse =
     ([HttpPost (''http://'' @ host @ '':'' @ str_int port @ ''/mcp'')
         (request_headers session_id) request_data],
      Inr (error_body, session_id))"
  by (simp add: forward_request_def)

section \<open>Writing the response\<close>




lemma one_line_single: "NL \<notin> set (one_line s) \<and> CR \<notin> set (one_line s)"
  by (auto simp: one_line_def)





section \<open>The main loop: one line in, one line out\<close>

lemma write_response_single: "\<exists>l. write_response c response = [Stdout l]"
  by (simp add: write_response_def split: sum.splits)

lemma main_except_single: "\<exists>l. main_except c e = [Stdout l]"
  by (cases e) (simp_all add: write_error_def)

text \<open>
  C1, as the code has it. For a non-blank line that parses as JSON: when the request
  is no object, exactly one line (an error) is printed and nothing is forwarded;
  otherwise the effects are those of the forwarder followed by exactly one printed
  line, except that nothing is printed when the forwarder returns an empty body.
\<close>

theorem process_line_response_lines:
  assumes nonblank: "strip (text_of inp) \<noteq> []"
      and parsed: "loads c (strip (text_of inp)) = Inr request"
  shows "case py_get request ''id'' of
           Inl e \<Rightarrow> \<exists>l. process_line c host port sid inp = ([Stdout l], sid)
         | Inr request_id \<Rightarrow>
             (case forward_request c host port (strip (text_of inp)) sid
                     (post_reply inp) (sse_reply inp) of
                (evs, Inl e) \<Rightarrow> \<exists>l. process_line c host port sid inp = (evs @ [Stdout l], sid)
              | (evs, Inr (response, sid')) \<Rightarrow>
                  if response = [] then process_line c host port sid inp = (evs, sid')
                  else \<exists>l. process_line c host port sid inp = (evs @ [Stdout l], sid'))"
proof (cases "py_get request ''id''")
  case (Inl e)
  with nonblank parsed main_except_single [of c e] show ?thesis
    by (auto simp: process_line_def)
next
  case (Inr request_id)
  obtain evs r where fwd:
    "forward_request c host port (strip (text_of inp)) sid (post_reply inp) (sse_reply inp) = (evs, r)"
    by (cases "forward_request c host port (strip (text_of inp)) sid (post_reply inp) (sse_reply inp)")
  show ?thesis
  proof (cases r)
    case (Inl e)
    with nonblank parsed Inr fwd main_except_single [of c e] show ?thesis
      by (auto simp: process_line_def)
  next
    case (Inr ok)
    obtain response sid' where ok: "ok = (response, sid')" by (cases ok)
    from nonblank parsed \<open>py_get request ''id'' = Inr request_id\<close> fwd Inr ok
      write_response_single [of c "backfill_id c request_id response"]
    show ?thesis
      by (auto simp: process_line_def)
  qed
qed

text \<open>
  C1 as stated fails for an empty body: a notification answered with status 202 and no
  body is forwarded and no line is printed (the loop prints only \<open>if response\<close>).
\<close>

theorem empty_body_no_line:
  \<open>strip (''{"jsonrpc":"2.0","method":"notifications/initialized"}'' @ [NL]) \<noteq> [] \<and>
   loads py_json (strip (''{"jsonrpc":"2.0","method":"notifications/initialized"}'' @ [NL]))
     = Inr (JDict [(''jsonrpc'', JString ''2.0''), (''method'', JString ''notifications/initialized'')]) \<and>
   process_line py_json ''127.0.0.1'' 27000 None
     \<lparr>text_of = ''{"jsonrpc":"2.0","method":"notifications/initialized"}'' @ [NL],
      post_reply = Inr \<lparr>status = 202, read_body = Inr '''', mcp_session_id = None\<rparr>,
      sse_reply = Inr []\<rparr>
   = ([HttpPost ''http://127.0.0.1:27000/mcp'' [(''Content-Type'', ''application/json'')]
         ''{"jsonrpc":"2.0","method":"notifications/initialized"}''], None)\<close>
  by (simp add: loop_defs sse_defs string_defs codec_defs)

text \<open>The theorem at work on the ping of the specification: the POST, then one line.\<close>

theorem process_line_response_lines_witness:
  \<open>strip (''{"jsonrpc":"2.0","id":1,"method":"ping","params":{}}'' @ [NL]) \<noteq> [] \<and>
   loads py_json (strip (''{"jsonrpc":"2.0","id":1,"method":"ping","params":{}}'' @ [NL]))
     = Inr (JDict [(''jsonrpc'', JString ''2.0''), (''id'', JInt 1), (''method'', JString ''ping''),
                   (''params'', JDict [])]) \<and>
   (\<exists>l. process_line py_json ''127.0.0.1'' 27000 None
     \<lparr>text_of = ''{"jsonrpc":"2.0","id":1,"method":"ping","params":{}}'' @ [NL],
      post_reply = Inr \<lparr>status = 200, read_body = Inr ''{"jsonrpc":"2.0","id":1,"result":"pong"}'',
                         mcp_session_id = None\<rparr>,
      sse_reply = Inr []\<rparr>
    = ([HttpPost ''http://127.0.0.1:27000/mcp'' [(''Content-Type'', ''application/json'')]
         ''{"jsonrpc":"2.0","id":1,"method":"ping","params":{}}''] @ [Stdout l], None))\<close>
proof -
  let ?inp = \<open>\<lparr>text_of = ''{"jsonrpc":"2.0","id":1,"method":"ping","params":{}}'' @ [NL],
      post_reply = Inr \<lparr>status = 200, read_body = Inr ''{"jsonrpc":"2.0","id":1,"result":"pong"}'',
                         mcp_session_id = None\<rparr>,
      sse_reply = Inr []\<rparr>\<close>
  let ?req = "JDict [(''jsonrpc'', JString ''2.0''), (''id'', JInt 1), (''method'', JString ''ping''),
                   (''params'', JDict [])]"
  have stripped: \<open>strip (text_of ?inp) = ''{"jsonrpc":"2.0","id":1,"method":"ping","params":{}}''\<close>
    by (simp add: string_defs)
  have nonblank: "strip (text_of ?inp) \<noteq> []"
    unfolding stripped by simp
  have parsed: "loads py_json (strip (text_of ?inp)) = Inr ?req"
    unfolding stripped by (simp add: string_defs codec_defs)
  have fwd: \<open>forward_request py_json ''127.0.0.1'' 27000 (strip (text_of ?inp)) None
               (post_reply ?inp) (sse_reply ?inp)
             = ([HttpPost ''http://127.0.0.1:27000/mcp'' [(''Content-Type'', ''application/json'')]
                   ''{"jsonrpc":"2.0","id":1,"method":"ping","params":{}}''],
                Inr (''{"jsonrpc":"2.0","id":1,"result":"pong"}'', None))\<close>
    unfolding stripped by (simp add: forward_request_def request_headers_def str_int_def digits.simps chr_def)
  from process_line_response_lines [OF nonblank parsed, of "''127.0.0.1''" 27000 None]
  have \<open>\<exists>l. process_line py_json ''127.0.0.1'' 27000 None ?inp
          = ([HttpPost ''http://127.0.0.1:27000/mcp'' [(''Content-Type'', ''application/json'')]
               ''{"jsonrpc":"2.0","id":1,"method":"ping","params":{}}''] @ [Stdout l], None)\<close>
    unfolding fwd by simp
  with nonblank parsed show ?thesis by simp
qed




section \<open>The session id\<close>




















end
